theory Spec2Isabelle
  imports Main "HOL-Library.Word"
begin

unbundle bit_operations_syntax

section \<open>Strings, identifiers and thrown values\<close>

text \<open>
  A JavaScript string is a sequence of UTF-16 code units; \<open>+\<close> on strings is list
  append, \<open>s.slice(0, n)\<close> with \<open>n \<ge> 0\<close> is \<open>take n\<close>, and a string is falsy exactly
  when it is empty.
\<close>

type_synonym jsstring = "16 word list"

definition lit :: "string \<Rightarrow> jsstring" where
  "lit s = map of_char s"

text \<open>\<open>Number.prototype.toString\<close> and template interpolation of a non-negative integer:
  its decimal digits.\<close>

fun toString :: "nat \<Rightarrow> jsstring" where
  "toString n =
     (if n < 10 then [of_nat (48 + n)]
      else toString (n div 10) @ [of_nat (48 + n mod 10)])"

declare toString.simps [simp del]

text \<open>\<open>String.prototype.trim\<close>: strips white space and line terminators at both ends.\<close>

definition is_js_whitespace :: "16 word \<Rightarrow> bool" where
  "is_js_whitespace c \<longleftrightarrow>
     c \<in> {0x0009, 0x000A, 0x000B, 0x000C, 0x000D, 0x0020, 0x00A0, 0x1680,
          0x2028, 0x2029, 0x202F, 0x205F, 0x3000, 0xFEFF}
     \<or> (0x2000 \<le> c \<and> c \<le> 0x200A)"

definition trim :: "jsstring \<Rightarrow> jsstring" where
  "trim s = rev (dropWhile is_js_whitespace (rev (dropWhile is_js_whitespace s)))"

text \<open>A thrown value is an \<open>Error\<close> instance carrying its message, or something else
  (the handlers test \<open>err instanceof Error\<close>).\<close>

datatype js_error = Error jsstring | NonError

text \<open>\<open>err instanceof Error ? err.message : dflt\<close>\<close>

fun message_or :: "jsstring \<Rightarrow> js_error \<Rightarrow> jsstring" where
  "message_or dflt (Error m) = m"
| "message_or dflt NonError = dflt"

text \<open>The state of an awaited promise when the awaiting function is observed: not yet
  settled (the function is suspended at that \<open>await\<close>), fulfilled, or rejected.\<close>

datatype 'a promise = Pending | Resolved 'a | Rejected js_error

text \<open>The message texts of the source, as code units (they are Chinese in the source).\<close>

definition msg_no_token :: jsstring where
  "msg_no_token = [0x672A, 0x627E, 0x5230, 0x8BA4, 0x8BC1, 0x4EE4, 0x724C, 0xFF0C,
     0x8BF7, 0x5148, 0x767B, 0x5F55]"

definition msg_send_failed_status :: jsstring where
  "msg_send_failed_status = [0x53D1, 0x9001, 0x6D88, 0x606F, 0x5931, 0x8D25, 0x003A, 0x0020]"

definition msg_no_readable_stream :: jsstring where
  "msg_no_readable_stream = [0x54CD, 0x5E94, 0x6CA1, 0x6709, 0x53EF, 0x8BFB, 0x53D6, 0x7684, 0x6D41]"

definition msg_update_model_failed_status :: jsstring where
  "msg_update_model_failed_status = [0x66F4, 0x65B0, 0x6A21, 0x578B, 0x5931, 0x8D25, 0x003A, 0x0020]"

definition msg_reset_failed_status :: jsstring where
  "msg_reset_failed_status = [0x91CD, 0x7F6E, 0x5BF9, 0x8BDD, 0x5931, 0x8D25, 0x003A, 0x0020]"

definition msg_update_failed_status :: jsstring where
  "msg_update_failed_status = [0x66F4, 0x65B0, 0x5931, 0x8D25, 0x003A, 0x0020]"

definition msg_update_model_failed :: jsstring where
  "msg_update_model_failed = [0x66F4, 0x65B0, 0x6A21, 0x578B, 0x5931, 0x8D25]"

definition msg_send_failed :: jsstring where
  "msg_send_failed = [0x53D1, 0x9001, 0x6D88, 0x606F, 0x5931, 0x8D25]"

definition msg_messages_api_error :: jsstring where
  "msg_messages_api_error = [0x83B7, 0x53D6, 0x6D88, 0x606F, 0x5217, 0x8868, 0x0041, 0x0050,
     0x0049, 0x9519, 0x8BEF, 0x003A, 0x0020]"

definition msg_fetch_messages_failed :: jsstring where
  "msg_fetch_messages_failed = [0x83B7, 0x53D6, 0x6D88, 0x606F, 0x5931, 0x8D25]"

definition mock_reply :: jsstring where
  "mock_reply = [0x8FD9, 0x662F, 0x4E00, 0x4E2A, 0x6A21, 0x62DF, 0x7684, 0x0041, 0x0049,
     0x56DE, 0x590D, 0x3002, 0x5728, 0x5B9E, 0x9645, 0x5E94, 0x7528, 0x4E2D, 0xFF0C, 0x8FD9,
     0x5C06, 0x7531, 0x540E, 0x7AEF, 0x0041, 0x0050, 0x0049, 0x8FD4, 0x56DE, 0x3002]"

section \<open>Data model of the conversation page\<close>

text \<open>An identifier is \<open>string | number\<close>; \<open>===\<close> never identifies a string with a
  number, which the two constructors reflect.\<close>

datatype ident = StrId jsstring | NumId int

datatype role = User | Assistant

record message =
  msg_id :: ident
  msg_role :: role
  content :: jsstring
  created_at :: jsstring
  conversation_id :: ident

record conversation =
  conv_id :: ident
  title :: jsstring
  model :: jsstring
  conv_created_at :: jsstring
  updated_at :: "jsstring option"
  user_id :: ident

text \<open>
  The React state of \<open>ConversationPage\<close> that the handlers read and write. The debug
  banner (\<open>debugInfo\<close>) and the console output are diagnostics and are left out; so is
  state that no handler modelled here touches (the model catalogue, the current user).
\<close>

record page =
  conversation :: "conversation option"
  messages :: "message list"
  isLoading :: bool
  error :: "jsstring option"
  newMessage :: jsstring
  isSending :: bool
  usingMock :: bool
  selectedModel :: jsstring

section \<open>Transcript updates\<close>

text \<open>
  The updater that the \<open>onChunk\<close> callback of \<open>handleSendMessage\<close> passes to
  \<open>setMessages\<close>:
  \<^verbatim>\<open>prev.map(msg => msg.id === tempAssistantId
       ? { ...msg, content: msg.content + content } : msg)\<close>
\<close>

definition updateContent :: "ident \<Rightarrow> jsstring \<Rightarrow> message list \<Rightarrow> message list" where
  "updateContent tempAssistantId delta prev =
     map (\<lambda>msg. if msg_id msg = tempAssistantId
                then msg\<lparr>content := content msg @ delta\<rparr> else msg) prev"

text \<open>The updater of the \<open>catch\<close> branch:
  \<^verbatim>\<open>prev.filter(msg => msg.id !== tempId)\<close>\<close>

definition removeMessage :: "ident \<Rightarrow> message list \<Rightarrow> message list" where
  "removeMessage tempId prev = filter (\<lambda>msg. msg_id msg \<noteq> tempId) prev"

section \<open>The platform's text decoder\<close>

text \<open>
  \<open>sendMessageStream\<close> decodes the response body with \<open>new TextDecoder()\<close> and
  \<open>decoder.decode(value, { stream: true })\<close>. The decoder is the platform's; it is
  modelled after the Encoding Standard: the UTF-8 decoder's state and handler, the
  processing of a queue of bytes with replacement of errors by U+FFFD, and the
  serialisation that drops one leading byte order mark.
\<close>

record utf8_decoder =
  code_point :: nat
  bytes_seen :: nat
  bytes_needed :: nat
  lower_boundary :: "8 word"
  upper_boundary :: "8 word"

definition utf8_initial :: utf8_decoder where
  "utf8_initial = \<lparr>code_point = 0, bytes_seen = 0, bytes_needed = 0,
      lower_boundary = 0x80, upper_boundary = 0xBF\<rparr>"

text \<open>What the handler returns for one byte: continue, a code point, an error, or an
  error after putting the byte back at the front of the queue.\<close>

datatype handler_result = Continue | Emit nat | Decode_error | Decode_error_restored

definition utf8_handler :: "utf8_decoder \<Rightarrow> 8 word \<Rightarrow> handler_result \<times> utf8_decoder" where
  "utf8_handler d b =
     (if bytes_needed d = 0 then
        (if b \<le> 0x7F then (Emit (unat b), d)
         else if 0xC2 \<le> b \<and> b \<le> 0xDF then
           (Continue, d\<lparr>bytes_needed := 1, code_point := unat (b AND 0x1F)\<rparr>)
         else if 0xE0 \<le> b \<and> b \<le> 0xEF then
           (Continue, d\<lparr>lower_boundary := (if b = 0xE0 then 0xA0 else lower_boundary d),
                          upper_boundary := (if b = 0xED then 0x9F else upper_boundary d),
                          bytes_needed := 2, code_point := unat (b AND 0xF)\<rparr>)
         else if 0xF0 \<le> b \<and> b \<le> 0xF4 then
           (Continue, d\<lparr>lower_boundary := (if b = 0xF0 then 0x90 else lower_boundary d),
                          upper_boundary := (if b = 0xF4 then 0x8F else upper_boundary d),
                          bytes_needed := 3, code_point := unat (b AND 0x7)\<rparr>)
         else (Decode_error, d))
      else if \<not> (lower_boundary d \<le> b \<and> b \<le> upper_boundary d) then
        (Decode_error_restored, utf8_initial)
      else
        (let d1 = d\<lparr>lower_boundary := 0x80, upper_boundary := 0xBF,
                       code_point := push_bit 6 (code_point d) OR unat (b AND 0x3F),
                       bytes_seen := bytes_seen d + 1\<rparr>
         in if bytes_seen d1 \<noteq> bytes_needed d1 then (Continue, d1)
            else (Emit (code_point d1),
                  d1\<lparr>code_point := 0, bytes_needed := 0, bytes_seen := 0\<rparr>)))"

text \<open>Running the handler over the bytes of the queue (error mode \<open>replacement\<close>): the
  code points produced and the decoder state left when the queue is empty. A restored
  byte is handled again, by a decoder that is back in its initial state.\<close>

function process_queue :: "utf8_decoder \<Rightarrow> 8 word list \<Rightarrow> nat list \<times> utf8_decoder" where
  "process_queue d [] = ([], d)"
| "process_queue d (b # bs) =
     (case utf8_handler d b of
        (Continue, d') \<Rightarrow> process_queue d' bs
      | (Emit c, d') \<Rightarrow> (let (out, d'') = process_queue d' bs in (c # out, d''))
      | (Decode_error, d') \<Rightarrow> (let (out, d'') = process_queue d' bs in (0xFFFD # out, d''))
      | (Decode_error_restored, d') \<Rightarrow>
          (let (out, d'') = process_queue d' (b # bs) in (0xFFFD # out, d'')))"
  by pat_completeness auto
termination
  by (relation "measure (\<lambda>(d, bs). 2 * length bs + (if bytes_needed d = 0 then 0 else 1))")
     (auto simp: utf8_handler_def utf8_initial_def Let_def split: if_splits)

declare process_queue.simps(2) [simp del]

text \<open>Serialising the code points: while no code point has been seen, a byte order
  mark in first position is dropped.\<close>

fun serialize :: "bool \<Rightarrow> nat list \<Rightarrow> nat list \<times> bool" where
  "serialize seen [] = ([], seen)"
| "serialize seen (item # ioQueue) =
     (if \<not> seen \<and> item = 0xFEFF then serialize True ioQueue
      else (let (out, seen') = serialize True ioQueue in (item # out, seen')))"

text \<open>A code point as the code units of a JavaScript string.\<close>

fun code_units :: "nat \<Rightarrow> jsstring" where
  "code_units c =
     (if c < 0x10000 then [of_nat c]
      else [of_nat (0xD800 + (c - 0x10000) div 0x400),
            of_nat (0xDC00 + (c - 0x10000) mod 0x400)])"

definition js_string :: "nat list \<Rightarrow> jsstring" where
  "js_string cs = concat (map code_units cs)"

record text_decoder =
  utf8 :: utf8_decoder
  bom_seen :: bool
  do_not_flush :: bool

definition new_TextDecoder :: text_decoder where
  "new_TextDecoder = \<lparr>utf8 = utf8_initial, bom_seen = False, do_not_flush = False\<rparr>"

text \<open>\<open>decoder.decode(input, { stream: true })\<close>: the end of the queue is not
  processed, so an unfinished sequence stays in the decoder for the next call.\<close>

definition decode_stream :: "text_decoder \<Rightarrow> 8 word list \<Rightarrow> jsstring \<times> text_decoder" where
  "decode_stream td input =
     (let td1 = (if \<not> do_not_flush td then td\<lparr>utf8 := utf8_initial, bom_seen := False\<rparr>
                 else td);
          td2 = td1\<lparr>do_not_flush := True\<rparr>;
          (output, d) = process_queue (utf8 td2) input;
          (text, seen) = serialize (bom_seen td2) output
      in (js_string text, td2\<lparr>utf8 := d, bom_seen := seen\<rparr>))"

text \<open>
  The reference the streamed text is compared with: \<open>new TextDecoder().decode(input)\<close>
  on the whole byte sequence at once. Here the end of the queue is processed: an
  unfinished sequence gives one more U+FFFD.
\<close>

definition decode_whole :: "8 word list \<Rightarrow> jsstring" where
  "decode_whole input =
     (let (output, d) = process_queue utf8_initial input;
          output' = (if bytes_needed d \<noteq> 0 then output @ [0xFFFD] else output)
      in js_string (fst (serialize False output')))"

section \<open>Requests and responses\<close>

datatype http_method = GET | POST | PUT

datatype endpoint =
    Conversations
  | ConversationById ident
  | ConversationModel ident
  | ConversationReset ident
  | ConversationMessages ident
  | ConversationStream ident

text \<open>The JSON bodies the source sends, by their fields.\<close>

datatype request_body =
    NoBody
  | CreateBody (body_title: jsstring) (body_model: jsstring)
  | ContentBody jsstring
  | ModelIdBody jsstring
  | ModelBody jsstring

text \<open>A request: \<open>bearer\<close> is the token interpolated into the \<open>Authorization\<close>
  header (\<open>None\<close> where the source interpolates \<open>null\<close>).\<close>

record request =
  req_method :: http_method
  req_endpoint :: endpoint
  bearer :: "jsstring option"
  req_body :: request_body

text \<open>What a handler does to the world outside the page state.\<close>

datatype effect = Fetch request | Navigate ident

text \<open>One \<open>reader.read()\<close>: a chunk of bytes, the end of the stream, or a rejection.\<close>

datatype read_result = ReadChunk "8 word list" | ReadDone | ReadRejected js_error

text \<open>
  A response: \<open>body\<close> is \<open>None\<close> for a \<open>null\<close> body, and otherwise the results of the
  successive reads of its reader (a script that is used up stands for a read that has
  not settled yet); \<open>json\<close> is the promise \<open>response.json()\<close> returns.
\<close>

record 'a response =
  ok :: bool
  status :: nat
  body :: "read_result list option"
  json :: "'a promise"

record message_pagination =
  total :: nat
  items :: "message list"
  page_no :: nat
  size_no :: nat

text \<open>
  The environment of one handler run: the token in local storage, the clock readings
  (\<open>Date.now()\<close> and \<open>new Date().toISOString()\<close> where the handler takes them), whether
  the mock timer has fired, and the promise each \<open>fetch\<close> returns.
\<close>

record env =
  auth_token :: "jsstring option"
  now_user :: nat
  iso_user :: jsstring
  now_assistant :: nat
  iso_assistant :: jsstring
  now_mock :: nat
  iso_mock :: jsstring
  timer_fired :: bool
  create_response :: "conversation response promise"
  stream_response :: "unit response promise"
  model_response :: "conversation response promise"
  update_response :: "conversation response promise"
  reset_response :: "unit response promise"
  messages_response :: "message_pagination response promise"

text \<open>Whether an \<open>async\<close> function has run to its end or is suspended at an
  \<open>await\<close>.\<close>

datatype run_state = Settled | Suspended

section \<open>The API client (\<open>lib/api.ts\<close>)\<close>

text \<open>
  Every function that reads the token tests it with \<open>if (!token)\<close>, which holds for
  \<open>null\<close> and for the empty string alike: \<open>present_token\<close> is the token when that test
  lets it through, and \<open>None\<close> when the function takes the no-token branch.
\<close>

definition present_token :: "jsstring option \<Rightarrow> jsstring option" where
  "present_token token =
     (case token of None \<Rightarrow> None | Some t \<Rightarrow> if t = [] then None else Some t)"

text \<open>\<open>conversationAPI.createConversation\<close>: the response is returned as it is.\<close>

definition createConversation ::
  "jsstring option \<Rightarrow> conversation response promise \<Rightarrow> jsstring \<Rightarrow> jsstring
     \<Rightarrow> effect list \<times> conversation response promise" where
  "createConversation token fetched content' model' =
     (case present_token token of
        None \<Rightarrow> ([], Rejected (Error msg_no_token))
      | Some t \<Rightarrow>
          ([Fetch \<lparr>req_method = POST, req_endpoint = Conversations, bearer = Some t,
                   req_body = CreateBody (take 50 content') model'\<rparr>], fetched))"

text \<open>\<open>conversationAPI.updateConversationModel\<close>\<close>

definition updateConversationModel ::
  "jsstring option \<Rightarrow> conversation response promise \<Rightarrow> ident \<Rightarrow> jsstring
     \<Rightarrow> effect list \<times> conversation promise" where
  "updateConversationModel token fetched conversationId modelId =
     (case present_token token of
        None \<Rightarrow> ([], Rejected (Error msg_no_token))
      | Some t \<Rightarrow>
          ([Fetch \<lparr>req_method = PUT, req_endpoint = ConversationModel conversationId,
                   bearer = Some t, req_body = ModelIdBody modelId\<rparr>],
           (case fetched of
              Pending \<Rightarrow> Pending
            | Rejected e \<Rightarrow> Rejected e
            | Resolved response \<Rightarrow>
                if \<not> ok response
                then Rejected (Error (msg_update_model_failed_status @ toString (status response)))
                else json response)))"

text \<open>\<open>conversationAPI.resetConversation\<close>\<close>

definition resetConversation ::
  "jsstring option \<Rightarrow> unit response promise \<Rightarrow> ident \<Rightarrow> effect list \<times> unit promise" where
  "resetConversation token fetched conversationId =
     (case present_token token of
        None \<Rightarrow> ([], Rejected (Error msg_no_token))
      | Some t \<Rightarrow>
          ([Fetch \<lparr>req_method = POST, req_endpoint = ConversationReset conversationId,
                   bearer = Some t, req_body = NoBody\<rparr>],
           (case fetched of
              Pending \<Rightarrow> Pending
            | Rejected e \<Rightarrow> Rejected e
            | Resolved response \<Rightarrow>
                if \<not> ok response
                then Rejected (Error (msg_reset_failed_status @ toString (status response)))
                else json response)))"

text \<open>
  The \<open>while (true)\<close> loop of \<open>sendMessageStream\<close>, over the results of the successive
  reads. The callbacks act on a state \<open>'s\<close> that is threaded through the loop.
\<close>

fun read_loop ::
  "text_decoder \<Rightarrow> read_result list \<Rightarrow> (jsstring \<Rightarrow> 's \<Rightarrow> 's) \<Rightarrow> ('s \<Rightarrow> 's) \<Rightarrow> 's
     \<Rightarrow> 's \<times> unit promise" where
  "read_loop decoder [] onMessage onDone s = (s, Pending)"
| "read_loop decoder (ReadRejected e # reads) onMessage onDone s = (s, Rejected e)"
| "read_loop decoder (ReadDone # reads) onMessage onDone s = (onDone s, Resolved ())"
| "read_loop decoder (ReadChunk v # reads) onMessage onDone s =
     (let (text, decoder') = decode_stream decoder v
      in read_loop decoder' reads onMessage onDone
           (if text \<noteq> [] then onMessage text s else s))"

text \<open>\<open>conversationAPI.sendMessageStream\<close>: its \<open>catch\<close> logs and rethrows.\<close>

definition sendMessageStream ::
  "jsstring option \<Rightarrow> unit response promise \<Rightarrow> ident \<Rightarrow> jsstring
     \<Rightarrow> (jsstring \<Rightarrow> 's \<Rightarrow> 's) \<Rightarrow> ('s \<Rightarrow> 's) \<Rightarrow> 's \<Rightarrow> 's \<times> effect list \<times> unit promise" where
  "sendMessageStream token fetched conversationId content' onMessage onDone s =
     (case present_token token of
        None \<Rightarrow> (s, [], Rejected (Error msg_no_token))
      | Some t \<Rightarrow>
          (let request = Fetch \<lparr>req_method = POST,
                 req_endpoint = ConversationStream conversationId, bearer = Some t,
                 req_body = ContentBody content'\<rparr>
           in case fetched of
                Pending \<Rightarrow> (s, [request], Pending)
              | Rejected e \<Rightarrow> (s, [request], Rejected e)
              | Resolved response \<Rightarrow>
                  if \<not> ok response
                  then (s, [request],
                        Rejected (Error (msg_send_failed_status @ toString (status response))))
                  else (case body response of
                          None \<Rightarrow> (s, [request], Rejected (Error msg_no_readable_stream))
                        | Some reads \<Rightarrow>
                            (let (s', result) =
                                   read_loop new_TextDecoder reads onMessage onDone s
                             in (s', [request], result)))))"

text \<open>Callbacks that only record their invocations, to observe what the decoder
  delivers and in which order.\<close>

datatype callback = OnMessage jsstring | OnDone

definition record_message :: "jsstring \<Rightarrow> callback list \<Rightarrow> callback list" where
  "record_message text log = log @ [OnMessage text]"

definition record_done :: "callback list \<Rightarrow> callback list" where
  "record_done log = log @ [OnDone]"

text \<open>The text fragments the decoder returns for successive chunks.\<close>

fun decode_chunks :: "text_decoder \<Rightarrow> 8 word list list \<Rightarrow> jsstring list" where
  "decode_chunks decoder [] = []"
| "decode_chunks decoder (v # vs) =
     (let (text, decoder') = decode_stream decoder v in text # decode_chunks decoder' vs)"

section \<open>The handlers of the conversation page\<close>

text \<open>
  Each handler is modelled as the page state it leaves, the requests and navigations it
  has issued, and whether it has run to its end or is suspended at an \<open>await\<close> whose
  promise the environment has not settled. The handler reads \<open>newMessage\<close>,
  \<open>selectedModel\<close>, \<open>isSending\<close> and \<open>usingMock\<close> from the render it was created in,
  which is the page state it is given.
\<close>

text \<open>\<open>fetchMessages\<close>: it catches its own errors and always clears \<open>isLoading\<close>.\<close>

definition fetchMessages :: "env \<Rightarrow> jsstring \<Rightarrow> page \<Rightarrow> page \<times> effect list \<times> run_state" where
  "fetchMessages e conversationId st =
     (case present_token (auth_token e) of
        None \<Rightarrow> (st\<lparr>error := Some msg_no_token, isLoading := False\<rparr>, [], Settled)
      | Some t \<Rightarrow>
          (let request = Fetch \<lparr>req_method = GET,
                 req_endpoint = ConversationMessages (StrId conversationId), bearer = Some t,
                 req_body = NoBody\<rparr>
           in case messages_response e of
                Pending \<Rightarrow> (st, [request], Suspended)
              | Rejected err \<Rightarrow>
                  (st\<lparr>error := Some (message_or msg_fetch_messages_failed err),
                      isLoading := False\<rparr>, [request], Settled)
              | Resolved msgResponse \<Rightarrow>
                  if \<not> ok msgResponse
                  then (st\<lparr>error := Some (msg_messages_api_error @ toString (status msgResponse)),
                           isLoading := False\<rparr>, [request], Settled)
                  else (case json msgResponse of
                          Pending \<Rightarrow> (st, [request], Suspended)
                        | Rejected err \<Rightarrow>
                            (st\<lparr>error := Some (message_or msg_fetch_messages_failed err),
                                isLoading := False\<rparr>, [request], Settled)
                        | Resolved messageData \<Rightarrow>
                            (st\<lparr>messages := items messageData, isLoading := False\<rparr>,
                             [request], Settled))))"

text \<open>The outer \<open>catch\<close> of \<open>handleModelChange\<close>: \<open>setError\<close> with the message of the
  error that reached it.\<close>

definition model_change_failed :: "js_error \<Rightarrow> page \<Rightarrow> page" where
  "model_change_failed err st = st\<lparr>error := Some (message_or msg_update_model_failed err)\<rparr>"

text \<open>
  \<open>handleModelChange\<close>. The inner \<open>try\<close> is the primary update; its \<open>catch\<close> tries the
  generic update endpoint, the reset and the reload, and on any failure of these
  rethrows the primary error (\<open>throw modelError\<close>).
\<close>

definition handleModelChange ::
  "env \<Rightarrow> jsstring \<Rightarrow> jsstring \<Rightarrow> page \<Rightarrow> page \<times> effect list \<times> run_state" where
  "handleModelChange e conversationId modelId st =
     (let st0 = st\<lparr>selectedModel := modelId\<rparr>
      in if conversationId = lit ''new'' then (st0, [], Settled)
         else
           (let st1 = st0\<lparr>error := None\<rparr>
            in case updateConversationModel (auth_token e) (model_response e)
                      (StrId conversationId) modelId of
                 (fx, Pending) \<Rightarrow> (st1, fx, Suspended)
               | (fx, Resolved updatedConversation) \<Rightarrow>
                   (let (st2, fx2, r) =
                          fetchMessages e conversationId
                            (st1\<lparr>conversation := Some updatedConversation\<rparr>)
                    in (st2, fx @ fx2, r))
               | (fx, Rejected modelError) \<Rightarrow>
                   (let request = Fetch \<lparr>req_method = PUT,
                          req_endpoint = ConversationById (StrId conversationId),
                          bearer = auth_token e, req_body = ModelBody modelId\<rparr>
                    in case update_response e of
                         Pending \<Rightarrow> (st1, fx @ [request], Suspended)
                       | Rejected fallbackError \<Rightarrow>
                           (model_change_failed modelError st1, fx @ [request], Settled)
                       | Resolved response \<Rightarrow>
                           if \<not> ok response
                           then (model_change_failed modelError st1, fx @ [request], Settled)
                           else (case json response of
                                   Pending \<Rightarrow> (st1, fx @ [request], Suspended)
                                 | Rejected fallbackError \<Rightarrow>
                                     (model_change_failed modelError st1, fx @ [request], Settled)
                                 | Resolved updatedConversation \<Rightarrow>
                                     (let st2 = st1\<lparr>conversation := Some updatedConversation\<rparr>
                                      in case resetConversation (auth_token e) (reset_response e)
                                                (StrId conversationId) of
                                           (fx3, Pending) \<Rightarrow>
                                             (st2, fx @ [request] @ fx3, Suspended)
                                         | (fx3, Rejected fallbackError) \<Rightarrow>
                                             (model_change_failed modelError st2,
                                              fx @ [request] @ fx3, Settled)
                                         | (fx3, Resolved u) \<Rightarrow>
                                             (let (st3, fx4, r) = fetchMessages e conversationId st2
                                              in (st3, fx @ [request] @ fx3 @ fx4, r)))))))"

text \<open>The two callbacks \<open>handleSendMessage\<close> hands to \<open>sendMessageStream\<close>.\<close>

definition onChunk :: "ident \<Rightarrow> jsstring \<Rightarrow> page \<Rightarrow> page" where
  "onChunk tempAssistantId content' st =
     st\<lparr>messages := updateContent tempAssistantId content' (messages st)\<rparr>"

definition onStreamDone :: "page \<Rightarrow> page" where
  "onStreamDone st = st\<lparr>isSending := False\<rparr>"

text \<open>The guard at the top of \<open>handleSendMessage\<close>:
  \<^verbatim>\<open>if (!newMessage.trim() || !selectedModel || isSending) return\<close>\<close>

definition send_rejected :: "page \<Rightarrow> bool" where
  "send_rejected st \<longleftrightarrow> trim (newMessage st) = [] \<or> selectedModel st = [] \<or> isSending st"

text \<open>The messages \<open>handleSendMessage\<close> builds.\<close>

definition userMessage :: "env \<Rightarrow> jsstring \<Rightarrow> page \<Rightarrow> message" where
  "userMessage e conversationId st =
     \<lparr>msg_id = StrId (toString (now_user e)), msg_role = User, content = newMessage st,
      created_at = iso_user e, conversation_id = StrId conversationId\<rparr>"

definition tempAssistantMessage :: "env \<Rightarrow> jsstring \<Rightarrow> message" where
  "tempAssistantMessage e conversationId =
     \<lparr>msg_id = StrId (lit ''assistant-'' @ toString (now_assistant e)), msg_role = Assistant,
      content = [], created_at = iso_assistant e, conversation_id = StrId conversationId\<rparr>"

definition mockAssistantMessage :: "env \<Rightarrow> jsstring \<Rightarrow> message" where
  "mockAssistantMessage e conversationId =
     \<lparr>msg_id = StrId (toString (now_mock e + 1)), msg_role = Assistant,
      content = mock_reply, created_at = iso_mock e, conversation_id = StrId conversationId\<rparr>"

text \<open>The \<open>catch\<close> branch of \<open>handleSendMessage\<close> followed by its \<open>finally\<close>.\<close>

definition send_failed :: "ident \<Rightarrow> js_error \<Rightarrow> page \<Rightarrow> page" where
  "send_failed tempId err st =
     st\<lparr>error := Some (message_or msg_send_failed err),
        messages := removeMessage tempId (messages st),
        isSending := False\<rparr>"

text \<open>
  \<open>handleSendMessage\<close>. After the guard come the optimistic user message, the cleared
  input and \<open>isSending\<close>; then the mock reply (when the page shows mock data), the
  creation of a conversation (on the \<open>new\<close> marker), or the placeholder and the stream.
  A \<open>return\<close> or an error inside the \<open>try\<close> runs the \<open>finally\<close>, which clears
  \<open>isSending\<close>.
\<close>

definition handleSendMessage ::
  "env \<Rightarrow> jsstring \<Rightarrow> page \<Rightarrow> page \<times> effect list \<times> run_state" where
  "handleSendMessage e conversationId st =
     (if send_rejected st then (st, [], Settled)
      else
        (let tempId = StrId (toString (now_user e));
             st1 = st\<lparr>messages := messages st @ [userMessage e conversationId st],
                      newMessage := [], isSending := True\<rparr>
         in if usingMock st then
              (if timer_fired e
               then (st1\<lparr>messages := messages st1 @ [mockAssistantMessage e conversationId],
                         isSending := False\<rparr>, [], Settled)
               else (st1, [], Suspended))
            else if conversationId = lit ''new'' then
              (case createConversation (auth_token e) (create_response e)
                      (newMessage st) (selectedModel st) of
                 (fx, Pending) \<Rightarrow> (st1, fx, Suspended)
               | (fx, Rejected err) \<Rightarrow> (send_failed tempId err st1, fx, Settled)
               | (fx, Resolved response) \<Rightarrow>
                   (case json response of
                      Pending \<Rightarrow> (st1, fx, Suspended)
                    | Rejected err \<Rightarrow> (send_failed tempId err st1, fx, Settled)
                    | Resolved newConversation \<Rightarrow>
                        (st1\<lparr>isSending := False\<rparr>,
                         fx @ [Navigate (conv_id newConversation)], Settled)))
            else
              (let tempAssistantId = StrId (lit ''assistant-'' @ toString (now_assistant e));
                   st2 = st1\<lparr>messages := messages st1 @ [tempAssistantMessage e conversationId]\<rparr>
               in case sendMessageStream (auth_token e) (stream_response e)
                         (StrId conversationId) (newMessage st)
                         (onChunk tempAssistantId) onStreamDone st2 of
                    (st3, fx, Pending) \<Rightarrow> (st3, fx, Suspended)
                  | (st3, fx, Rejected err) \<Rightarrow> (send_failed tempId err st3, fx, Settled)
                  | (st3, fx, Resolved u) \<Rightarrow> (st3\<lparr>isSending := False\<rparr>, fx, Settled))))"

section \<open>Auxiliary definitions for the statements and proofs\<close>

text \<open>What a script of reads makes the loop deliver, and how it makes the loop end, as
  functions of the script alone (the callbacks play no part in either).\<close>

fun delivered :: "text_decoder \<Rightarrow> read_result list \<Rightarrow> jsstring list" where
  "delivered decoder [] = []"
| "delivered decoder (ReadRejected e # reads) = []"
| "delivered decoder (ReadDone # reads) = []"
| "delivered decoder (ReadChunk v # reads) =
     (let (text, decoder') = decode_stream decoder v
      in (if text \<noteq> [] then [text] else []) @ delivered decoder' reads)"

fun stream_result :: "read_result list \<Rightarrow> unit promise" where
  "stream_result [] = Pending"
| "stream_result (ReadRejected e # reads) = Rejected e"
| "stream_result (ReadDone # reads) = Resolved ()"
| "stream_result (ReadChunk v # reads) = stream_result reads"

text \<open>The request \<open>sendMessageStream\<close> issues.\<close>

definition stream_request :: "jsstring \<Rightarrow> ident \<Rightarrow> jsstring \<Rightarrow> effect" where
  "stream_request t conversationId content' =
     Fetch \<lparr>req_method = POST, req_endpoint = ConversationStream conversationId,
            bearer = Some t, req_body = ContentBody content'\<rparr>"

text \<open>The texts of the \<open>onMessage\<close> invocations of a log, in order.\<close>

fun delivered_texts :: "callback list \<Rightarrow> jsstring list" where
  "delivered_texts [] = []"
| "delivered_texts (OnMessage t # log) = t # delivered_texts log"
| "delivered_texts (OnDone # log) = delivered_texts log"

text \<open>Replaying a log of callback invocations on a state.\<close>

fun replay :: "(jsstring \<Rightarrow> 's \<Rightarrow> 's) \<Rightarrow> ('s \<Rightarrow> 's) \<Rightarrow> callback list \<Rightarrow> 's \<Rightarrow> 's" where
  "replay onMessage onDone [] s = s"
| "replay onMessage onDone (OnMessage t # log) s = replay onMessage onDone log (onMessage t s)"
| "replay onMessage onDone (OnDone # log) s = replay onMessage onDone log (onDone s)"

text \<open>The requests among the effects of a handler.\<close>

fun requests_of :: "effect list \<Rightarrow> request list" where
  "requests_of [] = []"
| "requests_of (Fetch q # fx) = q # requests_of fx"
| "requests_of (Navigate i # fx) = requests_of fx"

text \<open>A page and environments for concrete runs: the user has typed \<open>Hello\<close> with
  \<open>gpt-4\<close> selected on conversation \<open>1\<close>.\<close>

definition demo_page :: page where
  "demo_page = \<lparr>conversation = None, messages = [], isLoading = False, error = None,
     newMessage = lit ''Hello'', isSending = False, usingMock = False,
     selectedModel = lit ''gpt-4''\<rparr>"

definition demo_env :: env where
  "demo_env = \<lparr>auth_token = Some (lit ''tok''),
     now_user = 1700000000000, iso_user = lit ''2023-11-14T22:13:20.000Z'',
     now_assistant = 1700000000001, iso_assistant = lit ''2023-11-14T22:13:20.001Z'',
     now_mock = 1700000002000, iso_mock = lit ''2023-11-14T22:13:22.000Z'',
     timer_fired = False,
     create_response = Pending, stream_response = Pending, model_response = Pending,
     update_response = Pending, reset_response = Pending, messages_response = Pending\<rparr>"

definition demo_stream_env :: env where
  "demo_stream_env = demo_env\<lparr>stream_response :=
     Resolved \<lparr>ok = True, status = 200,
       body = Some [ReadChunk [0x48, 0x69, 0x20],
                    ReadChunk [0x74, 0x68, 0x65, 0x72, 0x65, 0x21], ReadDone],
       json = Pending\<rparr>\<rparr>"

definition demo_sending_page :: page where
  "demo_sending_page =
     demo_page\<lparr>messages := [userMessage demo_env (lit ''1'') demo_page,
                             tempAssistantMessage demo_env (lit ''1'')],
                newMessage := [], isSending := True\<rparr>"

text \<open>The fallback update has failed: its \<open>fetch\<close> rejected, the response was not
  successful, or its body could not be read as JSON.\<close>

definition fallback_update_failed :: "env \<Rightarrow> bool" where
  "fallback_update_failed e =
     (case update_response e of
        Pending \<Rightarrow> False
      | Rejected err \<Rightarrow> True
      | Resolved response \<Rightarrow>
          (if ok response
           then (case json response of Rejected err \<Rightarrow> True | _ \<Rightarrow> False)
           else True))"

text \<open>The fallback update has succeeded and the reset that follows it has failed.\<close>

definition fallback_reset_failed :: "env \<Rightarrow> jsstring \<Rightarrow> bool" where
  "fallback_reset_failed e conversationId =
     (case update_response e of
        Resolved response \<Rightarrow>
          ok response
          \<and> (case json response of Resolved c \<Rightarrow> True | _ \<Rightarrow> False)
          \<and> (case snd (resetConversation (auth_token e) (reset_response e) (StrId conversationId)) of
                Rejected err \<Rightarrow> True | _ \<Rightarrow> False)
      | _ \<Rightarrow> False)"

definition demo_switch_env :: env where
  "demo_switch_env = demo_env\<lparr>
     model_response := Resolved \<lparr>ok = False, status = 500, body = None, json = Pending\<rparr>,
     update_response := Resolved \<lparr>ok = False, status = 404, body = None, json = Pending\<rparr>\<rparr>"

section \<open>Properties of the transcript updates\<close>

lemma updateContent_length: "length (updateContent i d ms) = length ms"
  by (simp add: updateContent_def)

lemma updateContent_nth:
  "k < length ms \<Longrightarrow>
   updateContent i d ms ! k =
     (if msg_id (ms ! k) = i then (ms ! k)\<lparr>content := content (ms ! k) @ d\<rparr> else ms ! k)"
  by (simp add: updateContent_def)

lemma updateContent_no_match:
  "i \<notin> msg_id ` set ms \<Longrightarrow> updateContent i d ms = ms"
  by (induction ms) (auto simp: updateContent_def)

text \<open>
  Claim C9. Applying a streamed delta keeps the transcript's length and order: entry
  \<open>k\<close> of the result is entry \<open>k\<close> of the input, with the delta appended to its content
  when its identifier matches and untouched otherwise; identifier, role, creation
  timestamp and conversation identifier of every entry are unchanged; and when no entry
  has the identifier the whole transcript is returned as it was.
\<close>

theorem updateContent_frame:
  "length (updateContent i d ms) = length ms
   \<and> (\<forall>k < length ms.
        (msg_id (ms ! k) = i \<longrightarrow>
           updateContent i d ms ! k = (ms ! k)\<lparr>content := content (ms ! k) @ d\<rparr>)
        \<and> (msg_id (ms ! k) \<noteq> i \<longrightarrow> updateContent i d ms ! k = ms ! k)
        \<and> msg_id (updateContent i d ms ! k) = msg_id (ms ! k)
        \<and> msg_role (updateContent i d ms ! k) = msg_role (ms ! k)
        \<and> created_at (updateContent i d ms ! k) = created_at (ms ! k)
        \<and> conversation_id (updateContent i d ms ! k) = conversation_id (ms ! k))
   \<and> (i \<notin> msg_id ` set ms \<longrightarrow> updateContent i d ms = ms)"
  by (simp add: updateContent_length updateContent_nth updateContent_no_match)

theorem updateContent_frame_witness:
  "(0::nat) < length [\<lparr>msg_id = StrId (lit ''a''), msg_role = Assistant, content = lit ''Hi '',
        created_at = lit ''t1'', conversation_id = NumId 7\<rparr>]
   \<and> updateContent (StrId (lit ''a'')) (lit ''there!'')
        [\<lparr>msg_id = StrId (lit ''a''), msg_role = Assistant, content = lit ''Hi '',
          created_at = lit ''t1'', conversation_id = NumId 7\<rparr>] ! 0
     = \<lparr>msg_id = StrId (lit ''a''), msg_role = Assistant, content = lit ''Hi there!'',
        created_at = lit ''t1'', conversation_id = NumId 7\<rparr>
   \<and> NumId 3 \<notin> msg_id ` set [\<lparr>msg_id = StrId (lit ''a''), msg_role = Assistant,
        content = lit ''Hi '', created_at = lit ''t1'', conversation_id = NumId 7\<rparr>]
   \<and> updateContent (NumId 3) (lit ''there!'')
        [\<lparr>msg_id = StrId (lit ''a''), msg_role = Assistant, content = lit ''Hi '',
          created_at = lit ''t1'', conversation_id = NumId 7\<rparr>]
     = [\<lparr>msg_id = StrId (lit ''a''), msg_role = Assistant, content = lit ''Hi '',
          created_at = lit ''t1'', conversation_id = NumId 7\<rparr>]"
  using updateContent_frame [of "StrId (lit ''a'')" "lit ''there!''"
      "[\<lparr>msg_id = StrId (lit ''a''), msg_role = Assistant, content = lit ''Hi '',
         created_at = lit ''t1'', conversation_id = NumId 7\<rparr>]"]
    updateContent_frame [of "NumId 3" "lit ''there!''"
      "[\<lparr>msg_id = StrId (lit ''a''), msg_role = Assistant, content = lit ''Hi '',
         created_at = lit ''t1'', conversation_id = NumId 7\<rparr>]"]
  by (simp add: lit_def)

section \<open>Decimal strings\<close>

lemma toString_digit: "toString n \<noteq> [] \<and> unat (hd (toString n)) < 58"
proof (induction n rule: toString.induct)
  case (1 n)
  show ?case
  proof (cases "n < 10")
    case True
    have "unat (of_nat (48 + n) :: 16 word) = (48 + n) mod 65536"
      unfolding unat_of_nat by simp
    with True have "unat (of_nat (48 + n) :: 16 word) < 58"
      by simp
    moreover from True have "toString n = [of_nat (48 + n)]"
      by (subst toString.simps) (simp only: if_True)
    ultimately show ?thesis
      by (simp only: list.sel) simp
  next
    case False
    with 1 show ?thesis
      by (simp add: toString.simps [of n])
  qed
qed

lemma tempId_neq_tempAssistantId: "toString n \<noteq> lit ''assistant-'' @ toString m"
proof
  assume "toString n = lit ''assistant-'' @ toString m"
  then have "hd (toString n) = 97" by (simp add: lit_def)
  with toString_digit [of n] show False by simp
qed

lemma digit_unit_inj:
  assumes "a < 10" "b < 10" "(of_nat (48 + a) :: 16 word) = of_nat (48 + b)"
  shows "a = b"
proof -
  have "unat (of_nat (48 + a) :: 16 word) = (48 + a) mod 65536"
       "unat (of_nat (48 + b) :: 16 word) = (48 + b) mod 65536"
    unfolding unat_of_nat by simp_all
  with assms have "(48 + a) mod 65536 = (48 + b) mod 65536"
    by (simp only:)
  with assms(1,2) show ?thesis by simp
qed

lemma toString_length: "length (toString n) = 1 \<longleftrightarrow> n < 10"
proof (cases "n < 10")
  case True
  then show ?thesis by (simp add: toString.simps [of n])
next
  case False
  have "toString (n div 10) \<noteq> []"
    using toString_digit [of "n div 10"] by simp
  with False show ?thesis
    by (simp add: toString.simps [of n])
qed

lemma toString_inj: "toString n = toString m \<Longrightarrow> n = m"
proof (induction n arbitrary: m rule: toString.induct)
  case (1 n)
  show ?case
  proof (cases "n < 10")
    case True
    with "1.prems" toString_length [of n] toString_length [of m] have m: "m < 10"
      by simp
    from True m "1.prems" have "(of_nat (48 + n) :: 16 word) = of_nat (48 + m)"
      by (simp only: toString.simps [of n] toString.simps [of m] if_True list.inject)
    with True m show ?thesis by (rule digit_unit_inj)
  next
    case False
    with "1.prems" toString_length [of n] toString_length [of m] have m: "\<not> m < 10"
      by simp
    from False m "1.prems"
    have eq: "toString (n div 10) @ [of_nat (48 + n mod 10)]
        = toString (m div 10) @ [of_nat (48 + m mod 10)]"
      by (simp only: toString.simps [of n] toString.simps [of m] if_False)
    then have "toString (n div 10) = toString (m div 10)"
      and d: "(of_nat (48 + n mod 10) :: 16 word) = of_nat (48 + m mod 10)"
      by (simp_all only: append1_eq_conv)
    with "1.IH" [OF False] have "n div 10 = m div 10" by simp
    moreover have "n mod 10 = m mod 10"
      using d by (intro digit_unit_inj) simp_all
    ultimately show ?thesis
      by (metis div_mult_mod_eq)
  qed
qed

section \<open>The stream decoder\<close>

lemma read_loop_fold:
  "read_loop decoder reads onMessage onDone s =
     ((if stream_result reads = Resolved () then onDone else (\<lambda>s. s))
        (foldl (\<lambda>s text. onMessage text s) s (delivered decoder reads)),
      stream_result reads)"
proof (induction reads arbitrary: decoder s)
  case Nil
  then show ?case by simp
next
  case (Cons r reads)
  then show ?case
    by (cases r) (simp_all split: prod.splits)
qed

lemma delivered_nonempty: "[] \<notin> set (delivered decoder reads)"
proof (induction reads arbitrary: decoder)
  case Nil
  then show ?case by simp
next
  case (Cons r reads)
  then show ?case by (cases r) (auto split: prod.splits)
qed

lemma delivered_chunks:
  "delivered decoder (map ReadChunk vs @ ReadDone # rest) =
     filter (\<lambda>t. t \<noteq> []) (decode_chunks decoder vs)"
  by (induction vs arbitrary: decoder) (auto split: prod.splits)

lemma stream_result_chunks: "stream_result (map ReadChunk vs @ ReadDone # rest) = Resolved ()"
  by (induction vs) auto

lemma foldl_record_message:
  "foldl (\<lambda>s text. record_message text s) log ts = log @ map OnMessage ts"
  by (induction ts arbitrary: log) (auto simp: record_message_def)

lemma read_loop_record:
  "read_loop decoder reads record_message record_done [] =
     (map OnMessage (delivered decoder reads)
        @ (if stream_result reads = Resolved () then [OnDone] else []),
      stream_result reads)"
  by (simp add: read_loop_fold foldl_record_message record_done_def)

text \<open>
  Claim C6. With a token that passes the \<open>!token\<close> test: when the response of the
  stream request has a non-success status, \<open>sendMessageStream\<close> rejects with an
  \<open>Error\<close> whose message ends in the decimal status code; when the response is
  successful but has no body, it rejects with the error for a missing readable stream;
  when the \<open>fetch\<close> itself rejects, it rejects with that error. In each case the one
  request has been issued and no callback has been invoked: the log of the recording
  callbacks is empty. The message of the first error determines the status code: no
  other number gives the same text.
\<close>

theorem sendMessageStream_transport_failure:
  assumes "t \<noteq> []"
  shows "(\<not> ok r \<longrightarrow>
      sendMessageStream (Some t) (Resolved r) cid c record_message record_done [] =
        ([], [stream_request t cid c],
         Rejected (Error (msg_send_failed_status @ toString (status r)))))
   \<and> (ok r \<and> body r = None \<longrightarrow>
      sendMessageStream (Some t) (Resolved r) cid c record_message record_done [] =
        ([], [stream_request t cid c], Rejected (Error msg_no_readable_stream)))
   \<and> sendMessageStream (Some t) (Rejected err) cid c record_message record_done [] =
        ([], [stream_request t cid c], Rejected err)
   \<and> (msg_send_failed_status @ toString n = msg_send_failed_status @ toString (status r)
        \<longrightarrow> n = status r)"
  using assms
  by (simp add: sendMessageStream_def present_token_def stream_request_def toString_inj)

theorem sendMessageStream_transport_failure_witness:
  "lit ''tok'' \<noteq> []
   \<and> \<not> ok \<lparr>ok = False, status = 500, body = None, json = Pending\<rparr>
   \<and> sendMessageStream (Some (lit ''tok''))
        (Resolved \<lparr>ok = False, status = 500, body = None, json = Pending\<rparr>)
        (StrId (lit ''1'')) (lit ''Hello'') record_message record_done [] =
       ([], [stream_request (lit ''tok'') (StrId (lit ''1'')) (lit ''Hello'')],
        Rejected (Error (msg_send_failed_status @ lit ''500'')))
   \<and> ok \<lparr>ok = True, status = 200, body = None, json = Pending\<rparr>
   \<and> body \<lparr>ok = True, status = 200, body = None, json = Pending\<rparr> = None
   \<and> sendMessageStream (Some (lit ''tok''))
        (Resolved \<lparr>ok = True, status = 200, body = None, json = Pending\<rparr>)
        (StrId (lit ''1'')) (lit ''Hello'') record_message record_done [] =
       ([], [stream_request (lit ''tok'') (StrId (lit ''1'')) (lit ''Hello'')],
        Rejected (Error msg_no_readable_stream))"
proof -
  have tok: "lit ''tok'' \<noteq> []" by (simp add: lit_def)
  from sendMessageStream_transport_failure
      [OF tok, of "\<lparr>ok = False, status = 500, body = None, json = Pending\<rparr>"
          "StrId (lit ''1'')" "lit ''Hello''"]
    sendMessageStream_transport_failure
      [OF tok, of "\<lparr>ok = True, status = 200, body = None, json = Pending\<rparr>"
          "StrId (lit ''1'')" "lit ''Hello''"] tok
  show ?thesis
    by (simp add: toString.simps lit_def)
qed

lemma delivered_prefix:
  "(\<And>d. delivered d rest = []) \<Longrightarrow>
   delivered decoder (map ReadChunk vs @ rest) =
     filter (\<lambda>t. t \<noteq> []) (decode_chunks decoder vs)"
  by (induction vs arbitrary: decoder) (auto split: prod.splits)

lemma stream_result_prefix: "stream_result (map ReadChunk vs @ rest) = stream_result rest"
  by (induction vs) auto

text \<open>
  Claim C7. Whatever the environment does, \<open>onMessage\<close> is never invoked with the
  empty string, \<open>onDone\<close> is invoked once when the operation returns and not at all
  otherwise, and nothing is invoked after \<open>onDone\<close>. Once the body is being read (the
  token passes the \<open>!token\<close> test, the response is successful and has a body), the
  invocations are exactly \<open>onMessage\<close> for each non-empty fragment the decoder returns
  for the chunks \<open>vs\<close> read so far, in order: followed by one \<open>onDone\<close>, and the
  operation returns, when the next read signals the end of the stream (what the reader
  would deliver after it is never read); followed by nothing, and the operation rejects
  with the read's error, when the next read fails; followed by nothing, with the
  operation suspended, while the next read has not settled. When no body is read (no
  token, no fulfilled \<open>fetch\<close>, a non-success status or no body), nothing is invoked
  and the operation does not return.
\<close>

theorem sendMessageStream_callbacks:
  assumes "sendMessageStream token fetched cid c record_message record_done [] = (log, fx, res)"
  shows "OnMessage [] \<notin> set log
    \<and> OnDone \<notin> set (butlast log)
    \<and> count_list log OnDone = (if res = Resolved () then 1 else 0)
    \<and> (\<forall>t r vs rest. token = Some t \<and> t \<noteq> [] \<and> fetched = Resolved r \<and> ok r
          \<and> body r = Some (map ReadChunk vs @ ReadDone # rest) \<longrightarrow>
        log = map OnMessage (filter (\<lambda>text. text \<noteq> []) (decode_chunks new_TextDecoder vs))
                @ [OnDone]
        \<and> res = Resolved ())
    \<and> (\<forall>t r vs err rest. token = Some t \<and> t \<noteq> [] \<and> fetched = Resolved r \<and> ok r
          \<and> body r = Some (map ReadChunk vs @ ReadRejected err # rest) \<longrightarrow>
        log = map OnMessage (filter (\<lambda>text. text \<noteq> []) (decode_chunks new_TextDecoder vs))
        \<and> res = Rejected err)
    \<and> (\<forall>t r vs. token = Some t \<and> t \<noteq> [] \<and> fetched = Resolved r \<and> ok r
          \<and> body r = Some (map ReadChunk vs) \<longrightarrow>
        log = map OnMessage (filter (\<lambda>text. text \<noteq> []) (decode_chunks new_TextDecoder vs))
        \<and> res = Pending)
    \<and> (token = None \<or> token = Some [] \<or> (\<forall>r. fetched \<noteq> Resolved r)
          \<or> (\<exists>r. fetched = Resolved r \<and> (\<not> ok r \<or> body r = None)) \<longrightarrow>
        log = [] \<and> res \<noteq> Resolved ())"
proof -
  have shape: "(log = [] \<and> res \<noteq> Resolved ())
      \<or> (\<exists>reads. log = map OnMessage (delivered new_TextDecoder reads)
             @ (if stream_result reads = Resolved () then [OnDone] else [])
           \<and> res = stream_result reads)"
    using assms
    by (auto simp: sendMessageStream_def present_token_def read_loop_record Let_def
          split: option.splits promise.splits if_splits)
  have count: "count_list (map OnMessage ts) OnDone = 0" for ts
    by (induction ts) auto
  have part1: "OnMessage [] \<notin> set log \<and> OnDone \<notin> set (butlast log)
      \<and> count_list log OnDone = (if res = Resolved () then 1 else 0)"
    using shape delivered_nonempty
    by (auto simp: butlast_append count dest: in_set_butlastD)
  have reading: "log = map OnMessage (delivered new_TextDecoder reads)
             @ (if stream_result reads = Resolved () then [OnDone] else [])
           \<and> res = stream_result reads"
    if "token = Some t" "t \<noteq> []" "fetched = Resolved r" "ok r" "body r = Some reads"
    for t r reads
    using assms that
    by (auto simp: sendMessageStream_def present_token_def read_loop_record)
  have part2: "log = map OnMessage (filter (\<lambda>text. text \<noteq> []) (decode_chunks new_TextDecoder vs))
                @ [OnDone] \<and> res = Resolved ()"
    if "token = Some t" "t \<noteq> []" "fetched = Resolved r" "ok r"
       "body r = Some (map ReadChunk vs @ ReadDone # rest)" for t r vs rest
    using reading [OF that] by (simp add: delivered_prefix stream_result_prefix)
  have part3: "log = map OnMessage (filter (\<lambda>text. text \<noteq> []) (decode_chunks new_TextDecoder vs))
                \<and> res = Rejected err"
    if "token = Some t" "t \<noteq> []" "fetched = Resolved r" "ok r"
       "body r = Some (map ReadChunk vs @ ReadRejected err # rest)" for t r vs err rest
    using reading [OF that] by (simp add: delivered_prefix stream_result_prefix)
  have part4: "log = map OnMessage (filter (\<lambda>text. text \<noteq> []) (decode_chunks new_TextDecoder vs))
                \<and> res = Pending"
    if "token = Some t" "t \<noteq> []" "fetched = Resolved r" "ok r"
       "body r = Some (map ReadChunk vs)" for t r vs
    using reading [OF that(1-4), of "map ReadChunk vs @ []"] that(5)
    by (simp add: delivered_prefix stream_result_prefix del: append_Nil2)
  have part5: "log = [] \<and> res \<noteq> Resolved ()"
    if "token = None \<or> token = Some [] \<or> (\<forall>r. fetched \<noteq> Resolved r)
          \<or> (\<exists>r. fetched = Resolved r \<and> (\<not> ok r \<or> body r = None))"
    using assms that
    by (auto simp: sendMessageStream_def present_token_def Let_def
          split: option.splits promise.splits if_splits)
  have c2: "\<forall>t r vs rest. token = Some t \<and> t \<noteq> [] \<and> fetched = Resolved r \<and> ok r
          \<and> body r = Some (map ReadChunk vs @ ReadDone # rest) \<longrightarrow>
        log = map OnMessage (filter (\<lambda>text. text \<noteq> []) (decode_chunks new_TextDecoder vs))
                @ [OnDone]
        \<and> res = Resolved ()"
    using part2 by blast
  have c3: "\<forall>t r vs err rest. token = Some t \<and> t \<noteq> [] \<and> fetched = Resolved r \<and> ok r
          \<and> body r = Some (map ReadChunk vs @ ReadRejected err # rest) \<longrightarrow>
        log = map OnMessage (filter (\<lambda>text. text \<noteq> []) (decode_chunks new_TextDecoder vs))
        \<and> res = Rejected err"
    using part3 by blast
  have c4: "\<forall>t r vs. token = Some t \<and> t \<noteq> [] \<and> fetched = Resolved r \<and> ok r
          \<and> body r = Some (map ReadChunk vs) \<longrightarrow>
        log = map OnMessage (filter (\<lambda>text. text \<noteq> []) (decode_chunks new_TextDecoder vs))
        \<and> res = Pending"
    using part4 by blast
  have c5: "token = None \<or> token = Some [] \<or> (\<forall>r. fetched \<noteq> Resolved r)
          \<or> (\<exists>r. fetched = Resolved r \<and> (\<not> ok r \<or> body r = None)) \<longrightarrow>
        log = [] \<and> res \<noteq> Resolved ()"
    using part5 by blast
  from part1 c2 c3 c4 c5 show ?thesis
    by (elim conjE, intro conjI) assumption+
qed

theorem sendMessageStream_callbacks_witness:
  "lit ''tok'' \<noteq> []
   \<and> sendMessageStream (Some (lit ''tok''))
      (Resolved \<lparr>ok = True, status = 200,
         body = Some (map ReadChunk [[0x48, 0x69, 0x20, 0xE4], [0xBD], [], [0xA0]]
                        @ ReadDone # [ReadChunk [0x21]]),
         json = Pending\<rparr>)
      (StrId (lit ''1'')) (lit ''Hello'') record_message record_done []
     = ([OnMessage [0x48, 0x69, 0x20], OnMessage [0x4F60], OnDone],
        [stream_request (lit ''tok'') (StrId (lit ''1'')) (lit ''Hello'')], Resolved ())
   \<and> sendMessageStream (Some (lit ''tok''))
      (Resolved \<lparr>ok = True, status = 200,
         body = Some (map ReadChunk [[0x48, 0x69, 0x20, 0xE4]] @ ReadRejected NonError # []),
         json = Pending\<rparr>)
      (StrId (lit ''1'')) (lit ''Hello'') record_message record_done []
     = ([OnMessage [0x48, 0x69, 0x20]],
        [stream_request (lit ''tok'') (StrId (lit ''1'')) (lit ''Hello'')], Rejected NonError)
   \<and> decode_chunks new_TextDecoder [[0x48, 0x69, 0x20, 0xE4], [0xBD], [], [0xA0]]
     = [[0x48, 0x69, 0x20], [], [], [0x4F60]]
   \<and> OnMessage [] \<notin> set [OnMessage [0x48, 0x69, 0x20], OnMessage [0x4F60], OnDone]
   \<and> OnDone \<notin> set (butlast [OnMessage [0x48, 0x69, 0x20], OnMessage [0x4F60], OnDone])
   \<and> count_list [OnMessage [0x48, 0x69, 0x20], OnMessage [0x4F60], OnDone] OnDone = 1"
proof -
  have tok: "lit ''tok'' \<noteq> []" by (simp add: lit_def)
  have run: "sendMessageStream (Some (lit ''tok''))
      (Resolved \<lparr>ok = True, status = 200,
         body = Some (map ReadChunk [[0x48, 0x69, 0x20, 0xE4], [0xBD], [], [0xA0]]
                        @ ReadDone # [ReadChunk [0x21]]),
         json = Pending\<rparr>)
      (StrId (lit ''1'')) (lit ''Hello'') record_message record_done []
     = ([OnMessage [0x48, 0x69, 0x20], OnMessage [0x4F60], OnDone],
        [stream_request (lit ''tok'') (StrId (lit ''1'')) (lit ''Hello'')], Resolved ())"
    using tok
    by (simp add: sendMessageStream_def present_token_def stream_request_def decode_stream_def
          new_TextDecoder_def process_queue.simps(2) utf8_handler_def utf8_initial_def
          js_string_def record_message_def record_done_def)
  have cut: "sendMessageStream (Some (lit ''tok''))
      (Resolved \<lparr>ok = True, status = 200,
         body = Some (map ReadChunk [[0x48, 0x69, 0x20, 0xE4]] @ ReadRejected NonError # []),
         json = Pending\<rparr>)
      (StrId (lit ''1'')) (lit ''Hello'') record_message record_done []
     = ([OnMessage [0x48, 0x69, 0x20]],
        [stream_request (lit ''tok'') (StrId (lit ''1'')) (lit ''Hello'')], Rejected NonError)"
    using tok
    by (simp add: sendMessageStream_def present_token_def stream_request_def decode_stream_def
          new_TextDecoder_def process_queue.simps(2) utf8_handler_def utf8_initial_def
          js_string_def record_message_def record_done_def)
  have frags: "decode_chunks new_TextDecoder [[0x48, 0x69, 0x20, 0xE4], [0xBD], [], [0xA0]]
     = [[0x48, 0x69, 0x20], [], [], [0x4F60]]"
    by (simp add: decode_stream_def new_TextDecoder_def process_queue.simps(2)
          utf8_handler_def utf8_initial_def js_string_def)
  from sendMessageStream_callbacks [OF run] sendMessageStream_callbacks [OF cut]
    tok run cut frags
  show ?thesis
    by simp
qed

lemma process_queue_append:
  "process_queue d (xs @ ys) =
     (let (o1, d1) = process_queue d xs; (o2, d2) = process_queue d1 ys in (o1 @ o2, d2))"
proof (induction d xs rule: process_queue.induct)
  case (1 d)
  then show ?case by simp
next
  case (2 d b bs)
  show ?case
  proof (cases "utf8_handler d b")
    case (Pair r d')
    with 2 show ?thesis
      by (cases r)
         (simp_all add: process_queue.simps(2) [of d b] process_queue.simps(2) [of d b "bs @ ys"]
            split: prod.splits)
  qed
qed

lemma serialize_True: "serialize True xs = (xs, True)"
  by (induction xs) auto

lemma serialize_append:
  "serialize seen (xs @ ys) =
     (let (o1, s1) = serialize seen xs; (o2, s2) = serialize s1 ys in (o1 @ o2, s2))"
  by (cases xs) (auto simp: serialize_True split: prod.splits)

lemma js_string_append: "js_string (xs @ ys) = js_string xs @ js_string ys"
  by (simp add: js_string_def)

text \<open>The text of a decoder that has been started, over all the bytes of the chunks.\<close>

lemma decode_chunks_started:
  "do_not_flush decoder \<Longrightarrow>
   concat (decode_chunks decoder vs) =
     js_string (fst (serialize (bom_seen decoder)
                       (fst (process_queue (utf8 decoder) (concat vs)))))"
proof (induction vs arbitrary: decoder)
  case Nil
  then show ?case by (simp add: js_string_def)
next
  case (Cons v vs)
  obtain out d where pq: "process_queue (utf8 decoder) v = (out, d)"
    by (cases "process_queue (utf8 decoder) v")
  obtain frag seen where ser: "serialize (bom_seen decoder) out = (frag, seen)"
    by (cases "serialize (bom_seen decoder) out")
  define decoder' where "decoder' = decoder\<lparr>do_not_flush := True, utf8 := d, bom_seen := seen\<rparr>"
  have step: "decode_stream decoder v = (js_string frag, decoder')"
    using Cons.prems pq ser by (simp add: decode_stream_def decoder'_def)
  have "do_not_flush decoder'" "utf8 decoder' = d" "bom_seen decoder' = seen"
    by (simp_all add: decoder'_def)
  with Cons.IH [of decoder']
  have rest: "concat (decode_chunks decoder' vs) =
      js_string (fst (serialize seen (fst (process_queue d (concat vs)))))"
    by simp
  show ?case
    using step rest pq ser
    by (simp add: process_queue_append serialize_append js_string_append split: prod.splits)
qed

lemma decode_stream_new:
  "decode_stream new_TextDecoder v = decode_stream (new_TextDecoder\<lparr>do_not_flush := True\<rparr>) v"
  by (simp add: decode_stream_def new_TextDecoder_def)

lemma decode_chunks_new:
  "decode_chunks new_TextDecoder vs = decode_chunks (new_TextDecoder\<lparr>do_not_flush := True\<rparr>) vs"
  by (cases vs) (simp_all add: decode_stream_new)

lemma concat_decode_chunks:
  "concat (decode_chunks new_TextDecoder vs) =
     js_string (fst (serialize False (fst (process_queue utf8_initial (concat vs)))))"
  by (simp add: decode_chunks_new decode_chunks_started) (simp add: new_TextDecoder_def)

lemma concat_filter_nonempty: "concat (filter (\<lambda>t. t \<noteq> []) xs) = concat xs"
  by (induction xs) auto

lemma delivered_texts_append:
  "delivered_texts (xs @ ys) = delivered_texts xs @ delivered_texts ys"
  by (induction xs rule: delivered_texts.induct) auto

lemma delivered_texts_map: "delivered_texts (map OnMessage ts) = ts"
  by (induction ts) auto

lemmas decoder_eval =
  decode_stream_def new_TextDecoder_def process_queue.simps(2) utf8_handler_def
  utf8_initial_def js_string_def decode_whole_def

text \<open>
  Claim C4, as amended. For every sequence of chunks whose bytes do not end inside an
  unfinished multi-byte sequence, however the chunk boundaries fall, the concatenation
  of the fragments delivered to \<open>onMessage\<close> equals the decoding of the whole byte
  sequence at once.
\<close>

theorem stream_decoding_whole:
  assumes "read_loop new_TextDecoder (map ReadChunk vs @ [ReadDone]) record_message record_done []
             = (log, res)"
    and "bytes_needed (snd (process_queue utf8_initial (concat vs))) = 0"
  shows "concat (delivered_texts log) = decode_whole (concat vs)"
proof -
  have "log = map OnMessage (filter (\<lambda>t. t \<noteq> []) (decode_chunks new_TextDecoder vs)) @ [OnDone]"
    using assms(1) by (simp add: read_loop_record delivered_chunks stream_result_chunks)
  then have "concat (delivered_texts log) = concat (decode_chunks new_TextDecoder vs)"
    by (simp add: delivered_texts_append delivered_texts_map concat_filter_nonempty)
  also have "\<dots> = decode_whole (concat vs)"
    using assms(2) by (auto simp: concat_decode_chunks decode_whole_def split: prod.splits)
  finally show ?thesis .
qed

theorem stream_decoding_whole_witness:
  "read_loop new_TextDecoder
      (map ReadChunk [[0x48, 0x69, 0x20, 0xE4], [0xBD], [0xA0, 0xF0, 0x9F], [0x98, 0x80]]
         @ [ReadDone]) record_message record_done []
     = ([OnMessage [0x48, 0x69, 0x20], OnMessage [0x4F60], OnMessage [0xD83D, 0xDE00], OnDone],
        Resolved ())
   \<and> bytes_needed (snd (process_queue utf8_initial
        (concat [[0x48, 0x69, 0x20, 0xE4], [0xBD], [0xA0, 0xF0, 0x9F], [0x98, 0x80]]))) = 0
   \<and> decode_whole (concat [[0x48, 0x69, 0x20, 0xE4], [0xBD], [0xA0, 0xF0, 0x9F], [0x98, 0x80]])
     = [0x48, 0x69, 0x20, 0x4F60, 0xD83D, 0xDE00]"
proof -
  have run: "read_loop new_TextDecoder
      (map ReadChunk [[0x48, 0x69, 0x20, 0xE4], [0xBD], [0xA0, 0xF0, 0x9F], [0x98, 0x80]]
         @ [ReadDone]) record_message record_done []
     = ([OnMessage [0x48, 0x69, 0x20], OnMessage [0x4F60], OnMessage [0xD83D, 0xDE00], OnDone],
        Resolved ())"
    by (simp add: decoder_eval record_message_def record_done_def)
  have idle: "bytes_needed (snd (process_queue utf8_initial
        (concat [[0x48, 0x69, 0x20, 0xE4], [0xBD], [0xA0, 0xF0, 0x9F], [0x98, 0x80]]))) = 0"
    by (simp add: decoder_eval)
  from stream_decoding_whole [OF run idle] run idle show ?thesis
    by simp
qed

text \<open>
  The claim as stated, for every byte stream, fails on a stream that splits one
  character across its two chunks and ends inside another: the loop never processes the
  end of the queue (it calls \<open>onDone\<close> without a final \<open>decoder.decode()\<close>), so the
  U+FFFD that decoding the whole sequence produces for the unfinished character is not
  delivered.
\<close>

theorem stream_decoding_truncated_counterexample:
  "read_loop new_TextDecoder (map ReadChunk [[0xE4], [0xBD, 0xA0, 0xE4]] @ [ReadDone])
      record_message record_done []
     = ([OnMessage [0x4F60], OnDone], Resolved ())
   \<and> decode_whole (concat [[0xE4], [0xBD, 0xA0, 0xE4]]) = [0x4F60, 0xFFFD]
   \<and> concat (delivered_texts [OnMessage [0x4F60], OnDone])
       \<noteq> decode_whole (concat [[0xE4], [0xBD, 0xA0, 0xE4]])"
  by (simp add: decoder_eval record_message_def record_done_def)

section \<open>Sending a message\<close>

lemma updateContent_empty: "updateContent i [] ms = ms"
  by (induction ms) (auto simp: updateContent_def)

lemma updateContent_twice:
  "updateContent i b (updateContent i a ms) = updateContent i (a @ b) ms"
  by (induction ms) (auto simp: updateContent_def)

lemma foldl_onChunk:
  "foldl (\<lambda>s t. onChunk i t s) st ts = st\<lparr>messages := updateContent i (concat ts) (messages st)\<rparr>"
proof (induction ts arbitrary: st)
  case Nil
  then show ?case by (simp add: updateContent_empty)
next
  case (Cons t ts)
  then show ?case by (simp add: onChunk_def updateContent_twice)
qed

lemma replay_messages:
  "replay onMessage onDone (map OnMessage ts @ log) s =
     replay onMessage onDone log (foldl (\<lambda>s t. onMessage t s) s ts)"
  by (induction ts arbitrary: s) auto

lemma read_loop_replay:
  "read_loop decoder reads onMessage onDone s =
     (replay onMessage onDone (fst (read_loop decoder reads record_message record_done [])) s,
      snd (read_loop decoder reads record_message record_done []))"
  by (simp add: read_loop_record replay_messages) (simp add: read_loop_fold)

lemma sendMessageStream_replay:
  "sendMessageStream token fetched cid c onMessage onDone s =
     (case sendMessageStream token fetched cid c record_message record_done [] of
        (log, fx, res) \<Rightarrow> (replay onMessage onDone log s, fx, res))"
  by (simp add: sendMessageStream_def present_token_def Let_def
        read_loop_replay [of _ _ onMessage onDone s]
        split: option.splits promise.splits prod.splits)

lemma sendMessageStream_log:
  assumes "sendMessageStream token fetched cid c record_message record_done [] = (log, fx, res)"
  shows "log = map OnMessage (delivered_texts log) @ (if res = Resolved () then [OnDone] else [])
         \<and> [] \<notin> set (delivered_texts log)"
proof -
  have "(log = [] \<and> res \<noteq> Resolved ())
      \<or> (\<exists>reads. log = map OnMessage (delivered new_TextDecoder reads)
             @ (if stream_result reads = Resolved () then [OnDone] else [])
           \<and> res = stream_result reads)"
    using assms
    by (auto simp: sendMessageStream_def present_token_def read_loop_record Let_def
          split: option.splits promise.splits if_splits)
  then show ?thesis
    using delivered_nonempty
    by (auto simp: delivered_texts_append delivered_texts_map)
qed

lemma trim_empty: "trim [] = []"
  by (simp add: trim_def)

text \<open>The page once the stream of an accepted send has completed.\<close>

lemma handleSendMessage_stream_resolved:
  assumes "\<not> send_rejected st" "\<not> usingMock st" "cid \<noteq> lit ''new''"
    and "sendMessageStream (auth_token e) (stream_response e) (StrId cid) (newMessage st)
           record_message record_done [] = (log, fx, Resolved ())"
  shows "handleSendMessage e cid st =
     (st\<lparr>messages :=
           updateContent (msg_id (tempAssistantMessage e cid)) (concat (delivered_texts log))
             (messages st)
           @ [userMessage e cid st,
              (tempAssistantMessage e cid)\<lparr>content := concat (delivered_texts log)\<rparr>],
         newMessage := [], isSending := False\<rparr>, fx, Settled)"
proof -
  let ?aid = "StrId (lit ''assistant-'' @ toString (now_assistant e))"
  let ?ts = "delivered_texts log"
  from sendMessageStream_log [OF assms(4)]
  have log: "log = map OnMessage ?ts @ [OnDone]" by simp
  have rep: "replay (onChunk ?aid) onStreamDone log s =
      s\<lparr>messages := updateContent ?aid (concat ?ts) (messages s), isSending := False\<rparr>" for s
    by (subst log) (simp add: replay_messages foldl_onChunk onStreamDone_def)
  have neq: "StrId (toString (now_user e)) \<noteq> ?aid"
    by (simp add: tempId_neq_tempAssistantId)
  show ?thesis
    using assms(1-3) neq
    by (simp add: handleSendMessage_def Let_def sendMessageStream_replay [of _ _ _ _ "onChunk ?aid"]
          assms(4) rep updateContent_def userMessage_def tempAssistantMessage_def)
qed

lemma sendMessageStream_page:
  "sendMessageStream token fetched cid c (onChunk i) onStreamDone s =
     (case sendMessageStream token fetched cid c record_message record_done [] of
        (log, fx, res) \<Rightarrow>
          ((if res = Resolved () then onStreamDone else (\<lambda>s. s))
             (s\<lparr>messages := updateContent i (concat (delivered_texts log)) (messages s)\<rparr>),
           fx, res))"
proof -
  obtain log fx res where spy:
    "sendMessageStream token fetched cid c record_message record_done [] = (log, fx, res)"
    by (cases "sendMessageStream token fetched cid c record_message record_done []")
  from sendMessageStream_log [OF spy]
  have log: "log = map OnMessage (delivered_texts log) @ (if res = Resolved () then [OnDone] else [])"
    by simp
  have "replay (onChunk i) onStreamDone log s =
      (if res = Resolved () then onStreamDone else (\<lambda>s. s))
        (s\<lparr>messages := updateContent i (concat (delivered_texts log)) (messages s)\<rparr>)"
    by (subst log) (simp add: replay_messages foldl_onChunk)
  then show ?thesis
    by (simp add: sendMessageStream_replay [of _ _ _ _ "onChunk i"] spy)
qed

lemma handleSendMessage_suspended:
  assumes "handleSendMessage e cid st = (st', fx, Suspended)"
  shows "isSending st'"
proof -
  obtain log fx' res where spy:
    "sendMessageStream (auth_token e) (stream_response e) (StrId cid) (newMessage st)
       record_message record_done [] = (log, fx', res)"
    by (cases "sendMessageStream (auth_token e) (stream_response e) (StrId cid) (newMessage st)
       record_message record_done []")
  show ?thesis
    using assms
    by (auto simp: handleSendMessage_def Let_def createConversation_def present_token_def sendMessageStream_page spy
          split: if_splits option.splits promise.splits prod.splits)
qed

lemma handleSendMessage_rejected:
  "send_rejected st \<Longrightarrow> handleSendMessage e cid st = (st, [], Settled)"
  by (simp add: handleSendMessage_def)

lemma handleSendMessage_accepted:
  assumes "\<not> send_rejected st"
  shows "fst (handleSendMessage e cid st) \<noteq> st"
proof -
  from assms have "newMessage st \<noteq> []"
    by (auto simp: send_rejected_def trim_empty)
  moreover have "newMessage (fst (handleSendMessage e cid st)) = []"
  proof -
    obtain log fx' res where spy:
      "sendMessageStream (auth_token e) (stream_response e) (StrId cid) (newMessage st)
         record_message record_done [] = (log, fx', res)"
      by (cases "sendMessageStream (auth_token e) (stream_response e) (StrId cid) (newMessage st)
         record_message record_done []")
    show ?thesis
      using assms
      by (auto simp: handleSendMessage_def Let_def createConversation_def present_token_def sendMessageStream_page
            spy send_failed_def onStreamDone_def
            split: if_splits option.splits promise.splits prod.splits)
  qed
  ultimately show ?thesis by auto
qed

lemma demo_page_accepted: "\<not> send_rejected demo_page"
  by (simp add: send_rejected_def demo_page_def trim_def lit_def is_js_whitespace_def)

lemma demo_stream_log:
  "sendMessageStream (auth_token demo_stream_env) (stream_response demo_stream_env)
      (StrId (lit ''1'')) (newMessage demo_page) record_message record_done []
     = ([OnMessage (lit ''Hi ''), OnMessage (lit ''there!''), OnDone],
        [stream_request (lit ''tok'') (StrId (lit ''1'')) (lit ''Hello'')], Resolved ())"
  by (simp add: demo_stream_env_def demo_env_def demo_page_def sendMessageStream_def present_token_def
        stream_request_def decoder_eval record_message_def record_done_def lit_def)

text \<open>
  Claim C1. For an accepted send on an existing conversation whose stream completes,
  with \<open>log\<close> the callback invocations the stream decoder makes: the handler settles
  with \<open>isSending\<close> cleared, the transcript has two more entries, and its last entry is
  the assistant placeholder with exactly the concatenation, in delivery order, of the
  texts delivered to \<open>onMessage\<close> as its content; nothing else of the placeholder
  differs from what was appended.
\<close>

theorem handleSendMessage_final_content:
  assumes "\<not> send_rejected st" "\<not> usingMock st" "cid \<noteq> lit ''new''"
    and "sendMessageStream (auth_token e) (stream_response e) (StrId cid) (newMessage st)
           record_message record_done [] = (log, fx, Resolved ())"
  shows "snd (handleSendMessage e cid st) = (fx, Settled)
    \<and> \<not> isSending (fst (handleSendMessage e cid st))
    \<and> length (messages (fst (handleSendMessage e cid st))) = length (messages st) + 2
    \<and> last (messages (fst (handleSendMessage e cid st))) =
        \<lparr>msg_id = StrId (lit ''assistant-'' @ toString (now_assistant e)), msg_role = Assistant,
         content = concat (delivered_texts log), created_at = iso_assistant e,
         conversation_id = StrId cid\<rparr>"
  by (simp add: handleSendMessage_stream_resolved [OF assms] updateContent_length
        tempAssistantMessage_def)

theorem handleSendMessage_final_content_witness:
  "\<not> send_rejected demo_page \<and> \<not> usingMock demo_page \<and> lit ''1'' \<noteq> lit ''new''
   \<and> sendMessageStream (auth_token demo_stream_env) (stream_response demo_stream_env)
        (StrId (lit ''1'')) (newMessage demo_page) record_message record_done []
       = ([OnMessage (lit ''Hi ''), OnMessage (lit ''there!''), OnDone],
          [stream_request (lit ''tok'') (StrId (lit ''1'')) (lit ''Hello'')], Resolved ())
   \<and> content (last (messages (fst (handleSendMessage demo_stream_env (lit ''1'') demo_page))))
       = lit ''Hi there!''
   \<and> length (messages (fst (handleSendMessage demo_stream_env (lit ''1'') demo_page))) = 2"
proof -
  have a: "\<not> usingMock demo_page" "lit ''1'' \<noteq> lit ''new''" "messages demo_page = []"
    by (simp_all add: demo_page_def lit_def)
  from handleSendMessage_final_content [OF demo_page_accepted a(1,2) demo_stream_log]
    demo_page_accepted a demo_stream_log
  show ?thesis
    by (simp add: lit_def)
qed

text \<open>
  Claim C10. An accepted send on the \<open>new\<close> marker issues, when the token passes
  the \<open>!token\<close> test (it is stored and not empty), exactly one request: the \<open>POST\<close>
  that creates a conversation, whose title is the first 50 code units of the submitted
  text (the whole text when it has at most 50) and whose model is the selected model.
  No request posts the text as a message. With no token or an empty one, no request is
  issued at all.
\<close>

theorem new_conversation_request:
  assumes "\<not> send_rejected st" "\<not> usingMock st"
    and "handleSendMessage e (lit ''new'') st = (st', fx, r)"
  shows "requests_of fx =
      (case auth_token e of
         None \<Rightarrow> []
       | Some t \<Rightarrow>
           if t = [] then []
           else [\<lparr>req_method = POST, req_endpoint = Conversations, bearer = Some t,
                   req_body = CreateBody (take 50 (newMessage st)) (selectedModel st)\<rparr>])
    \<and> length (take 50 (newMessage st)) = min 50 (length (newMessage st))
    \<and> (length (newMessage st) \<le> 50 \<longrightarrow> take 50 (newMessage st) = newMessage st)"
  using assms
  by (auto simp: handleSendMessage_def Let_def createConversation_def present_token_def
        split: option.splits promise.splits if_splits)

theorem new_conversation_request_witness:
  "\<not> send_rejected (demo_page\<lparr>newMessage := replicate 60 0x61\<rparr>)
   \<and> \<not> usingMock (demo_page\<lparr>newMessage := replicate 60 0x61\<rparr>)
   \<and> requests_of (fst (snd (handleSendMessage demo_env (lit ''new'')
         (demo_page\<lparr>newMessage := replicate 60 0x61\<rparr>))))
     = [\<lparr>req_method = POST, req_endpoint = Conversations, bearer = Some (lit ''tok''),
         req_body = CreateBody (replicate 50 0x61) (lit ''gpt-4'')\<rparr>]
   \<and> requests_of (fst (snd (handleSendMessage demo_env (lit ''new'') demo_page)))
     = [\<lparr>req_method = POST, req_endpoint = Conversations, bearer = Some (lit ''tok''),
         req_body = CreateBody (lit ''Hello'') (lit ''gpt-4'')\<rparr>]
   \<and> requests_of (fst (snd (handleSendMessage (demo_env\<lparr>auth_token := Some []\<rparr>)
         (lit ''new'') demo_page))) = []"
proof -
  have acc: "\<not> send_rejected (demo_page\<lparr>newMessage := replicate 60 0x61\<rparr>)"
    by (simp add: send_rejected_def demo_page_def trim_def lit_def is_js_whitespace_def
          dropWhile_replicate)
  have nm: "\<not> usingMock (demo_page\<lparr>newMessage := replicate 60 0x61\<rparr>)" "\<not> usingMock demo_page"
    by (simp_all add: demo_page_def)
  obtain st1 fx1 r1 where run1: "handleSendMessage demo_env (lit ''new'')
         (demo_page\<lparr>newMessage := replicate 60 0x61\<rparr>) = (st1, fx1, r1)"
    by (cases "handleSendMessage demo_env (lit ''new'') (demo_page\<lparr>newMessage := replicate 60 0x61\<rparr>)")
  obtain st2 fx2 r2 where run2: "handleSendMessage demo_env (lit ''new'') demo_page = (st2, fx2, r2)"
    by (cases "handleSendMessage demo_env (lit ''new'') demo_page")
  obtain st3 fx3 r3 where run3:
    "handleSendMessage (demo_env\<lparr>auth_token := Some []\<rparr>) (lit ''new'') demo_page = (st3, fx3, r3)"
    by (cases "handleSendMessage (demo_env\<lparr>auth_token := Some []\<rparr>) (lit ''new'') demo_page")
  from new_conversation_request [OF acc nm(1) run1]
    new_conversation_request [OF demo_page_accepted nm(2) run2]
    new_conversation_request [OF demo_page_accepted nm(2) run3] acc nm run1 run2 run3
  show ?thesis
    by (simp add: demo_env_def demo_page_def lit_def)
qed

text \<open>
  Claim C5. The guard rejects exactly when the trimmed text is empty, no model is
  selected, or a send is in progress, and a submit is a no-op (same page, no request,
  nothing pending) exactly when the guard rejects. Whenever a send is suspended at an
  \<open>await\<close> (request sent, or stream being read), a further submit on the page as it is
  then is such a no-op, whatever the environment. An accepted send on an existing
  conversation, with a token that passes the \<open>!token\<close> test, first shows the optimistic user message and the placeholder with
  \<open>isSending\<close> set, and when its stream completes the transcript has gained exactly one
  user message and one assistant message.
\<close>

theorem submit_guard:
  "(send_rejected st \<longleftrightarrow> trim (newMessage st) = [] \<or> selectedModel st = [] \<or> isSending st)
   \<and> (handleSendMessage e cid st = (st, [], Settled) \<longleftrightarrow> send_rejected st)
   \<and> (handleSendMessage e cid st = (st', fx, Suspended) \<longrightarrow>
        handleSendMessage e' cid' st' = (st', [], Settled))
   \<and> (\<not> send_rejected st \<and> \<not> usingMock st \<and> cid \<noteq> lit ''new'' \<and> auth_token e = Some t
        \<and> t \<noteq> [] \<and> stream_response e = Pending \<longrightarrow>
        handleSendMessage e cid st =
          (st\<lparr>messages := messages st @ [userMessage e cid st, tempAssistantMessage e cid],
              newMessage := [], isSending := True\<rparr>,
           [stream_request t (StrId cid) (newMessage st)], Suspended))
   \<and> (\<not> send_rejected st \<and> \<not> usingMock st \<and> cid \<noteq> lit ''new''
        \<and> sendMessageStream (auth_token e) (stream_response e) (StrId cid) (newMessage st)
             record_message record_done [] = (log, fx, Resolved ()) \<longrightarrow>
        length (messages (fst (handleSendMessage e cid st))) = length (messages st) + 2
        \<and> drop (length (messages st)) (messages (fst (handleSendMessage e cid st))) =
            [userMessage e cid st,
             (tempAssistantMessage e cid)\<lparr>content := concat (delivered_texts log)\<rparr>])"
proof -
  have guard: "send_rejected st \<longleftrightarrow> trim (newMessage st) = [] \<or> selectedModel st = [] \<or> isSending st"
    by (simp add: send_rejected_def)
  have noop: "handleSendMessage e cid st = (st, [], Settled) \<longleftrightarrow> send_rejected st"
    using handleSendMessage_rejected [of st e cid] handleSendMessage_accepted [of st e cid]
    by (cases "send_rejected st") auto
  have again: "handleSendMessage e' cid' st' = (st', [], Settled)"
    if "handleSendMessage e cid st = (st', fx, Suspended)"
    using handleSendMessage_suspended [OF that]
    by (simp add: handleSendMessage_rejected send_rejected_def)
  have sending: "handleSendMessage e cid st =
          (st\<lparr>messages := messages st @ [userMessage e cid st, tempAssistantMessage e cid],
              newMessage := [], isSending := True\<rparr>,
           [stream_request t (StrId cid) (newMessage st)], Suspended)"
    if "\<not> send_rejected st" "\<not> usingMock st" "cid \<noteq> lit ''new''" "auth_token e = Some t"
       "t \<noteq> []" "stream_response e = Pending"
    using that
    by (simp add: handleSendMessage_def sendMessageStream_def present_token_def stream_request_def)
  have completed: "length (messages (fst (handleSendMessage e cid st))) = length (messages st) + 2
        \<and> drop (length (messages st)) (messages (fst (handleSendMessage e cid st))) =
            [userMessage e cid st,
             (tempAssistantMessage e cid)\<lparr>content := concat (delivered_texts log)\<rparr>]"
    if "\<not> send_rejected st" "\<not> usingMock st" "cid \<noteq> lit ''new''"
       "sendMessageStream (auth_token e) (stream_response e) (StrId cid) (newMessage st)
             record_message record_done [] = (log, fx, Resolved ())"
    by (simp add: handleSendMessage_stream_resolved [OF that] updateContent_length)
  from guard noop again sending completed show ?thesis
    by blast
qed

theorem submit_guard_witness:
  "handleSendMessage demo_env (lit ''1'') demo_page =
      (demo_sending_page, [stream_request (lit ''tok'') (StrId (lit ''1'')) (lit ''Hello'')],
       Suspended)
   \<and> handleSendMessage demo_stream_env (lit ''1'') demo_sending_page =
      (demo_sending_page, [], Settled)
   \<and> send_rejected demo_sending_page
   \<and> map msg_role (messages (fst (handleSendMessage demo_stream_env (lit ''1'') demo_page)))
       = [User, Assistant]
   \<and> map content (messages (fst (handleSendMessage demo_stream_env (lit ''1'') demo_page)))
       = [lit ''Hello'', lit ''Hi there!'']"
proof -
  have a: "\<not> usingMock demo_page" "lit ''1'' \<noteq> lit ''new''" "messages demo_page = []"
    "auth_token demo_env = Some (lit ''tok'')" "stream_response demo_env = Pending"
    "newMessage demo_page = lit ''Hello''" "lit ''tok'' \<noteq> []"
    by (simp_all add: demo_page_def demo_env_def lit_def)
  note g = submit_guard [of demo_page demo_env "lit ''1''" demo_sending_page
      "[stream_request (lit ''tok'') (StrId (lit ''1'')) (lit ''Hello'')]"
      demo_stream_env "lit ''1''" "lit ''tok''"]
  have first: "handleSendMessage demo_env (lit ''1'') demo_page =
      (demo_sending_page, [stream_request (lit ''tok'') (StrId (lit ''1'')) (lit ''Hello'')],
       Suspended)"
    using g demo_page_accepted a by (simp add: demo_sending_page_def)
  have second: "handleSendMessage demo_stream_env (lit ''1'') demo_sending_page =
      (demo_sending_page, [], Settled)"
    using g first by simp
  have rejected: "send_rejected demo_sending_page"
    by (simp add: send_rejected_def demo_sending_page_def)
  have completed: "drop (length (messages demo_page))
        (messages (fst (handleSendMessage demo_stream_env (lit ''1'') demo_page))) =
      [userMessage demo_stream_env (lit ''1'') demo_page,
       (tempAssistantMessage demo_stream_env (lit ''1''))\<lparr>content :=
          concat (delivered_texts [OnMessage (lit ''Hi ''), OnMessage (lit ''there!''), OnDone])\<rparr>]"
    using submit_guard [of demo_page demo_stream_env "lit ''1''" _ 
        "[stream_request (lit ''tok'') (StrId (lit ''1'')) (lit ''Hello'')]" _ _ _
        "[OnMessage (lit ''Hi ''), OnMessage (lit ''there!''), OnDone]"]
      demo_page_accepted a demo_stream_log
    by simp
  from first second rejected completed a show ?thesis
    by (simp add: userMessage_def tempAssistantMessage_def lit_def)
qed

text \<open>
  Claim C2, evaluated at a failing input. On an empty transcript, a send whose stream
  request is answered with status 500 ends with the optimistic user message removed,
  but with the empty assistant placeholder still in the transcript: the \<open>catch\<close>
  branch filters on \<open>tempId\<close> only.
\<close>

theorem failed_send_leaves_placeholder:
  "handleSendMessage
      (demo_env\<lparr>stream_response := Resolved \<lparr>ok = False, status = 500, body = None, json = Pending\<rparr>\<rparr>)
      (lit ''1'') demo_page
     = (demo_page\<lparr>messages := [tempAssistantMessage demo_env (lit ''1'')], newMessage := [],
          error := Some (msg_send_failed_status @ lit ''500'')\<rparr>,
        [stream_request (lit ''tok'') (StrId (lit ''1'')) (lit ''Hello'')], Settled)
   \<and> messages demo_page = []"
  using demo_page_accepted
  by (simp add: handleSendMessage_def sendMessageStream_def present_token_def send_failed_def removeMessage_def
        userMessage_def tempAssistantMessage_def stream_request_def demo_env_def demo_page_def
        toString.simps lit_def)

section \<open>Switching the model\<close>

lemma demo_switch_primary:
  "snd (updateConversationModel (auth_token demo_switch_env) (model_response demo_switch_env)
          (StrId (lit ''1'')) (lit ''claude-3''))
     = Rejected (Error (msg_update_model_failed_status @ lit ''500''))"
  by (simp add: updateConversationModel_def present_token_def demo_switch_env_def demo_env_def toString.simps lit_def)

lemma demo_switch_fallback: "fallback_update_failed demo_switch_env"
  by (simp add: fallback_update_failed_def demo_switch_env_def)

text \<open>
  Claim C8. On an existing conversation, when the primary model update rejects with
  \<open>modelError\<close> and the fallback then fails (its update fails, or its update succeeds
  and the reset fails), the handler settles and the error shown is the message of
  \<open>modelError\<close> (the default text when it is not an \<open>Error\<close>), whatever the fallback's
  own error was.
\<close>

theorem model_switch_error_is_primary:
  assumes "conversationId \<noteq> lit ''new''"
    and "snd (updateConversationModel (auth_token e) (model_response e)
                (StrId conversationId) modelId) = Rejected modelError"
    and "fallback_update_failed e \<or> fallback_reset_failed e conversationId"
  shows "error (fst (handleModelChange e conversationId modelId st))
           = Some (message_or msg_update_model_failed modelError)
    \<and> snd (snd (handleModelChange e conversationId modelId st)) = Settled"
  using assms
  by (auto simp: handleModelChange_def Let_def fallback_update_failed_def
        fallback_reset_failed_def model_change_failed_def
        split: prod.splits promise.splits if_splits)

theorem model_switch_error_is_primary_witness:
  "lit ''1'' \<noteq> lit ''new''
   \<and> snd (updateConversationModel (auth_token demo_switch_env) (model_response demo_switch_env)
          (StrId (lit ''1'')) (lit ''claude-3''))
       = Rejected (Error (msg_update_model_failed_status @ lit ''500''))
   \<and> fallback_update_failed demo_switch_env
   \<and> error (fst (handleModelChange demo_switch_env (lit ''1'') (lit ''claude-3'') demo_page))
       = Some (msg_update_model_failed_status @ lit ''500'')
   \<and> error (fst (handleModelChange demo_switch_env (lit ''1'') (lit ''claude-3'') demo_page))
       \<noteq> Some (msg_update_failed_status @ lit ''404'')"
proof -
  have n: "lit ''1'' \<noteq> lit ''new''" by (simp add: lit_def)
  from model_switch_error_is_primary [OF n demo_switch_primary, of demo_page]
    n demo_switch_primary demo_switch_fallback
  show ?thesis
    by (simp add: msg_update_model_failed_status_def msg_update_failed_status_def lit_def)
qed

text \<open>
  Claim C3, as amended. On an existing conversation, when the primary model update and
  the fallback update both fail, the page after the attempt is the page before it with
  the primary error reported and with the requested model selected: the conversation
  record and the transcript are unchanged, and the selection, which is set before the
  update is attempted, is not reverted.
\<close>

theorem model_switch_both_failed:
  assumes "conversationId \<noteq> lit ''new''"
    and "snd (updateConversationModel (auth_token e) (model_response e)
                (StrId conversationId) modelId) = Rejected modelError"
    and "fallback_update_failed e"
  shows "fst (handleModelChange e conversationId modelId st)
           = st\<lparr>selectedModel := modelId,
                error := Some (message_or msg_update_model_failed modelError)\<rparr>"
  using assms
  by (auto simp: handleModelChange_def Let_def fallback_update_failed_def
        model_change_failed_def
        split: prod.splits promise.splits if_splits)

theorem model_switch_both_failed_witness:
  "lit ''1'' \<noteq> lit ''new''
   \<and> snd (updateConversationModel (auth_token demo_switch_env) (model_response demo_switch_env)
          (StrId (lit ''1'')) (lit ''claude-3''))
       = Rejected (Error (msg_update_model_failed_status @ lit ''500''))
   \<and> fallback_update_failed demo_switch_env
   \<and> fst (handleModelChange demo_switch_env (lit ''1'') (lit ''claude-3'') demo_page)
       = demo_page\<lparr>selectedModel := lit ''claude-3'',
           error := Some (msg_update_model_failed_status @ lit ''500'')\<rparr>"
proof -
  have n: "lit ''1'' \<noteq> lit ''new''" by (simp add: lit_def)
  from model_switch_both_failed [OF n demo_switch_primary demo_switch_fallback, of demo_page]
    n demo_switch_primary demo_switch_fallback
  show ?thesis
    by simp
qed

text \<open>
  The claim as stated fails: with \<open>gpt-4\<close> selected, a switch to \<open>claude-3\<close> whose primary
  update is answered with status 500 and whose fallback update is answered with status
  404 leaves \<open>claude-3\<close> selected.
\<close>

theorem model_switch_selection_counterexample:
  "lit ''1'' \<noteq> lit ''new''
   \<and> snd (updateConversationModel (auth_token demo_switch_env) (model_response demo_switch_env)
          (StrId (lit ''1'')) (lit ''claude-3''))
       = Rejected (Error (msg_update_model_failed_status @ lit ''500''))
   \<and> fallback_update_failed demo_switch_env
   \<and> selectedModel demo_page = lit ''gpt-4''
   \<and> selectedModel (fst (handleModelChange demo_switch_env (lit ''1'') (lit ''claude-3'') demo_page))
       = lit ''claude-3''
   \<and> selectedModel (fst (handleModelChange demo_switch_env (lit ''1'') (lit ''claude-3'') demo_page))
       \<noteq> selectedModel demo_page"
  by (simp add: handleModelChange_def updateConversationModel_def present_token_def model_change_failed_def
        fallback_update_failed_def demo_switch_env_def demo_env_def demo_page_def
        toString.simps lit_def)

end
